theory Spec2Isabelle
  imports Main
begin

section \<open>Values, cells and errors\<close>

text \<open>
  A Python \<open>str\<close> is modelled as a \<open>string\<close>, one \<open>char\<close> per character (characters
  beyond Latin-1 are outside the model). Every exception the program can raise is a value
  of \<open>error\<close>; a computation that may raise returns \<open>error + 'a\<close>, \<open>Inl\<close> being the raise.
\<close>

datatype error =
    IndexError
  | TypeError
  | ValueError
  | OverflowError
  | UnboundLocalError
  | ReadError

text \<open>
  A Python \<open>float\<close>. A finite value is kept as the decimal it was written as, sign,
  mantissa and exponent of ten: \<open>Finite s m e\<close> stands for \<open>(-1)^s * m * 10^e\<close>. The
  rounding of that decimal to a binary64 is not modelled.
\<close>

datatype pyfloat = Finite bool nat int | Infinity bool | NaN

text \<open>
  A cell of the raw table: \<open>csv.reader\<close> yields strings only, \<open>xlrd\<close>'s \<open>row_values\<close>
  yields strings for text and blank cells and floats for numeric cells.
\<close>

datatype cell = Text string | Number pyfloat

text \<open>A value handed to \<open>csv.writer.writerow\<close>: a string, an int or a float.\<close>

datatype val = VStr string | VInt int | VFloat pyfloat

type_synonym table = "cell list list"

definition getitem :: "'a list \<Rightarrow> nat \<Rightarrow> error + 'a" where
  "getitem xs i = (if i < length xs then Inr (xs ! i) else Inl IndexError)"

text \<open>
  Sequencing: \<open>and_then m f\<close> runs \<open>m\<close>, and \<open>f\<close> on its result unless \<open>m\<close> raised.
\<close>

definition and_then :: "error + 'a \<Rightarrow> ('a \<Rightarrow> error + 'b) \<Rightarrow> error + 'b" where
  "and_then m f = (case m of Inl e \<Rightarrow> Inl e | Inr x \<Rightarrow> f x)"

section \<open>Characters and number formatting\<close>

definition digit_chars :: string where
  "digit_chars = ''0123456789''"

definition alnum_chars :: string where
  "alnum_chars =
     ''ABCDEFGHIJKLMNOPQRSTUVWXYZabcdefghijklmnopqrstuvwxyz0123456789''"

definition is_digit :: "char \<Rightarrow> bool" where
  "is_digit c = (c \<in> set digit_chars)"

text \<open>The character class \<open>[A-Za-z0-9]\<close>.\<close>

definition is_alnum :: "char \<Rightarrow> bool" where
  "is_alnum c = (c \<in> set alnum_chars)"

text \<open>\<open>str(n)\<close> and \<open>"{}".format(n)\<close> for an int.\<close>

fun str_nat :: "nat \<Rightarrow> string" where
  "str_nat n =
     (if n < 10 then [digit_chars ! n]
      else str_nat (n div 10) @ [digit_chars ! (n mod 10)])"

declare str_nat.simps [simp del]

definition str_int :: "int \<Rightarrow> string" where
  "str_int i = (if i < 0 then CHR ''-'' # str_nat (nat (- i)) else str_nat (nat i))"

section \<open>Tag metadata: \<open>clc_tags_descriptions\<close>\<close>

text \<open>
  \<open>re.sub('[^A-Za-z0-9]+', '', s)\<close>: scanning from the left, every maximal run of
  characters outside the class is replaced by the empty string.
\<close>

function sub_non_alnum :: "string \<Rightarrow> string" where
  "sub_non_alnum [] = []"
| "sub_non_alnum (c # cs) =
     (if is_alnum c then c # sub_non_alnum cs
      else sub_non_alnum (dropWhile (\<lambda>x. \<not> is_alnum x) cs))"
  by pat_completeness auto
termination
  by (relation "measure length") (auto simp: less_Suc_eq_le length_dropWhile_le)

text \<open>\<open>re.sub(' +', ' ', s)\<close>: every maximal run of spaces becomes one space.\<close>

function sub_spaces :: "string \<Rightarrow> string" where
  "sub_spaces [] = []"
| "sub_spaces (c # cs) =
     (if c = CHR '' '' then CHR '' '' # sub_spaces (dropWhile (\<lambda>x. x = CHR '' '') cs)
      else c # sub_spaces cs)"
  by pat_completeness auto
termination
  by (relation "measure length") (auto simp: less_Suc_eq_le length_dropWhile_le)

text \<open>\<open>re.sub\<close> raises \<open>TypeError\<close> on an argument that is not a string.\<close>

definition re_sub_non_alnum :: "cell \<Rightarrow> error + string" where
  "re_sub_non_alnum c = (case c of Text s \<Rightarrow> Inr (sub_non_alnum s) | Number _ \<Rightarrow> Inl TypeError)"

definition re_sub_spaces :: "cell \<Rightarrow> error + string" where
  "re_sub_spaces c = (case c of Text s \<Rightarrow> Inr (sub_spaces s) | Number _ \<Rightarrow> Inl TypeError)"

definition variable_warning :: "nat \<Rightarrow> string \<Rightarrow> string" where
  "variable_warning idx tag =
     ''line'' @ str_nat (idx + 8) @ '': '' @ tag @ '' variable length too long''"

definition description_warning :: "nat \<Rightarrow> string \<Rightarrow> string" where
  "description_warning idx tag =
     ''line'' @ str_nat (idx + 8) @ '': '' @ tag @ '' description length too long''"

definition clc_string :: "string \<Rightarrow> string \<Rightarrow> string \<Rightarrow> string" where
  "clc_string tag desc units = tag @ ''~~~'' @ tag @ ''~~~'' @ desc @ ''~~~'' @ units"

text \<open>
  The body of the loop of \<open>clc_tags_descriptions\<close> for one column \<open>idx\<close>, on the two
  lists built so far. Row 0 exists when the loop runs (its length gave the range).
\<close>

definition tags_step ::
  "table \<Rightarrow> nat \<Rightarrow> string list \<times> string list \<Rightarrow> error + (string list \<times> string list)" where
  "tags_step csv_table idx acc =
     and_then (getitem (csv_table ! 0) idx) (\<lambda>c0.
     and_then (re_sub_non_alnum c0) (\<lambda>tag.
     and_then (Inr (if length tag > 12 then snd acc @ [variable_warning idx tag]
                    else snd acc)) (\<lambda>list2a.
     and_then (getitem csv_table 1) (\<lambda>row1.
     and_then (getitem row1 idx) (\<lambda>c1.
     and_then (re_sub_spaces c1) (\<lambda>desc.
     and_then (Inr (if length desc > 40 then list2a @ [description_warning idx tag]
                    else list2a)) (\<lambda>list2b.
     and_then (getitem csv_table 2) (\<lambda>row2.
     and_then (getitem row2 idx) (\<lambda>c2.
     and_then (re_sub_spaces c2) (\<lambda>units.
     Inr (fst acc @ [clc_string tag desc units], list2b)))))))))))"

fun tags_loop ::
  "table \<Rightarrow> nat list \<Rightarrow> string list \<times> string list \<Rightarrow> error + (string list \<times> string list)" where
  "tags_loop csv_table [] acc = Inr acc"
| "tags_loop csv_table (idx # rest) acc =
     and_then (tags_step csv_table idx acc) (tags_loop csv_table rest)"

definition clc_tags_descriptions :: "table \<Rightarrow> error + (string list \<times> string list)" where
  "clc_tags_descriptions csv_table =
     and_then (getitem csv_table 0) (\<lambda>row0.
     tags_loop csv_table [1 ..< length row0] ([], []))"

section \<open>Numeric coercion: \<open>float\<close>, \<open>format_data\<close>, \<open>data_section\<close>\<close>

text \<open>
  \<open>float(s)\<close> on a string, after the grammar of the Python documentation: surrounding
  whitespace is removed; then an optional sign and \<open>inf\<close>, \<open>infinity\<close> or \<open>nan\<close> in any
  letter case, or a decimal number with optional fraction and exponent, whose digit
  groups may hold single underscores between digits. Anything else raises \<open>ValueError\<close>.
  Only the ASCII whitespace and digit characters are modelled.
\<close>

definition space_chars :: string where
  "space_chars = [CHR '' '', CHR 0x09, CHR 0x0A, CHR 0x0B, CHR 0x0C, CHR 0x0D]"

definition is_space :: "char \<Rightarrow> bool" where
  "is_space c = (c \<in> set space_chars)"

definition strip :: "string \<Rightarrow> string" where
  "strip s = rev (dropWhile is_space (rev (dropWhile is_space s)))"

definition lower :: "char \<Rightarrow> char" where
  "lower c =
     (case map_of (zip ''ABCDEFGHIJKLMNOPQRSTUVWXYZ'' ''abcdefghijklmnopqrstuvwxyz'') c of
        Some l \<Rightarrow> l
      | None \<Rightarrow> c)"

definition digit_val :: "char \<Rightarrow> nat" where
  "digit_val c = length (takeWhile (\<lambda>d. d \<noteq> c) digit_chars)"

definition digits_val :: "string \<Rightarrow> nat" where
  "digits_val ds = foldl (\<lambda>a c. 10 * a + digit_val c) 0 ds"

text \<open>An underscore is skipped when it stands between two digits.\<close>

definition skip_underscore :: "string \<Rightarrow> string" where
  "skip_underscore cs =
     (case cs of
        u # d # ds \<Rightarrow> if u = CHR ''_'' \<and> is_digit d then d # ds else cs
      | _ \<Rightarrow> cs)"

text \<open>\<open>digitpart\<close> reads the longest digit group at the front: its digits, and the rest.\<close>

function digitpart :: "string \<Rightarrow> string \<times> string" where
  "digitpart [] = ([], [])"
| "digitpart (c # cs) =
     (if is_digit c
      then (case digitpart (skip_underscore cs) of (ds, r) \<Rightarrow> (c # ds, r))
      else ([], c # cs))"
  by pat_completeness auto
termination
  by (relation "measure length") (auto simp: skip_underscore_def split: list.splits)

definition read_sign :: "string \<Rightarrow> bool \<times> string" where
  "read_sign s =
     (case s of
        c # cs \<Rightarrow>
          if c = CHR ''-'' then (True, cs)
          else if c = CHR ''+'' then (False, cs)
          else (False, s)
      | [] \<Rightarrow> (False, []))"

text \<open>The exponent, if any, and what follows it; \<open>None\<close> when an \<open>e\<close> has no digits.\<close>

definition exponent :: "string \<Rightarrow> (int \<times> string) option" where
  "exponent s =
     (case s of
        [] \<Rightarrow> Some (0, [])
      | c # cs \<Rightarrow>
          if c = CHR ''e'' \<or> c = CHR ''E''
          then (case read_sign cs of (neg, cs') \<Rightarrow>
                 (case digitpart cs' of (ds, r) \<Rightarrow>
                    if ds = [] then None
                    else Some (if neg then - int (digits_val ds) else int (digits_val ds), r)))
          else Some (0, s))"

definition finish_number :: "string \<Rightarrow> nat \<Rightarrow> string \<Rightarrow> (nat \<times> int) option" where
  "finish_number ds k rest =
     (case exponent rest of
        Some (e, r) \<Rightarrow> if r = [] then Some (digits_val ds, e - int k) else None
      | None \<Rightarrow> None)"

definition floatnumber :: "string \<Rightarrow> (nat \<times> int) option" where
  "floatnumber s =
     (case digitpart s of (ip, r1) \<Rightarrow>
        (case r1 of
           c # r \<Rightarrow>
             if c = CHR ''.''
             then (case digitpart r of (fp, r2) \<Rightarrow>
                     if ip = [] \<and> fp = [] then None
                     else finish_number (ip @ fp) (length fp) r2)
             else if ip = [] then None
             else finish_number ip 0 r1
         | [] \<Rightarrow> if ip = [] then None else finish_number ip 0 []))"

definition absfloatvalue :: "bool \<Rightarrow> string \<Rightarrow> pyfloat option" where
  "absfloatvalue neg s =
     (if map lower s = ''inf'' \<or> map lower s = ''infinity'' then Some (Infinity neg)
      else if map lower s = ''nan'' then Some NaN
      else (case floatnumber s of
              Some (m, e) \<Rightarrow> Some (Finite neg m e)
            | None \<Rightarrow> None))"

definition float_of_str :: "string \<Rightarrow> error + pyfloat" where
  "float_of_str s =
     (case read_sign (strip s) of (neg, body) \<Rightarrow>
        (case absfloatvalue neg body of
           Some v \<Rightarrow> Inr v
         | None \<Rightarrow> Inl ValueError))"

text \<open>\<open>float(x)\<close> on a cell: a float is returned as it is.\<close>

definition py_float :: "cell \<Rightarrow> error + pyfloat" where
  "py_float c = (case c of Text s \<Rightarrow> float_of_str s | Number f \<Rightarrow> Inr f)"

text \<open>
  A loop \<open>for x in xs: out.append(f(x))\<close> whose body may raise: the results in order,
  or the first exception.
\<close>

primrec collect :: "('a \<Rightarrow> error + 'b) \<Rightarrow> 'a list \<Rightarrow> error + 'b list" where
  "collect f [] = Inr []"
| "collect f (x # xs) =
     and_then (f x) (\<lambda>y. and_then (collect f xs) (\<lambda>ys. Inr (y # ys)))"

text \<open>
  The \<open>try\<close> of \<open>format_data\<close> on one cell: the two elements appended to the row. Only
  \<open>ValueError\<close> is caught.
\<close>

definition format_cell :: "cell \<Rightarrow> error + val list" where
  "format_cell c =
     (case py_float c of
        Inr data \<Rightarrow> Inr [VFloat data, VStr ''G'']
      | Inl e \<Rightarrow> if e = ValueError then Inr [VInt (- 9999), VStr ''B''] else Inl e)"

definition format_row :: "cell list \<Rightarrow> error + val list" where
  "format_row row =
     and_then (collect (\<lambda>data_idx. format_cell (row ! data_idx)) [1 ..< length row])
       (\<lambda>pairs. Inr (concat pairs))"

definition format_data :: "table \<Rightarrow> error + val list list" where
  "format_data csv_table =
     collect (\<lambda>row_idx. format_row (csv_table ! row_idx)) [3 ..< length csv_table]"

definition data_section :: "string list \<Rightarrow> val list list \<Rightarrow> error + val list list" where
  "data_section timestamps data =
     collect
       (\<lambda>time_idx.
          and_then (getitem data time_idx) (\<lambda>d.
          Inr (VStr (timestamps ! time_idx) # map (\<lambda>idx. d ! idx) [0 ..< length d])))
       [0 ..< length timestamps]"

section \<open>Dates and times\<close>

text \<open>
  A \<open>datetime\<close> is its wall-clock reading, counted in microseconds from
  0001-01-01 00:00:00 of the proleptic Gregorian calendar, with the offset from UTC (in
  microseconds) of its \<open>tzinfo\<close>, \<open>None\<close> for a naive value. Only a \<open>tzinfo\<close> with a
  fixed offset is modelled. A \<open>timedelta\<close> is a number of microseconds.
\<close>

record datetime =
  wall :: int
  utcoffset :: "int option"

type_synonym timedelta = int

definition us_per_day :: int where
  "us_per_day = 86400000000"

text \<open>\<open>datetime.max\<close> is the last microsecond of day 3652059 (9999-12-31).\<close>

definition max_ordinal :: int where
  "max_ordinal = 3652059"

definition valid_datetime :: "datetime \<Rightarrow> bool" where
  "valid_datetime d = (0 \<le> wall d \<and> wall d < max_ordinal * us_per_day)"

text \<open>\<open>timedelta.min\<close> and \<open>timedelta.max\<close>: 999999999 days either way.\<close>

definition valid_timedelta :: "timedelta \<Rightarrow> bool" where
  "valid_timedelta td =
     (- 999999999 * us_per_day \<le> td \<and> td < (999999999 + 1) * us_per_day)"

text \<open>\<open>n * td\<close>, \<open>d + td\<close> and \<open>a - b\<close>; the first two raise \<open>OverflowError\<close> out of range.\<close>

definition td_mul :: "nat \<Rightarrow> timedelta \<Rightarrow> error + timedelta" where
  "td_mul n td = (if valid_timedelta (int n * td) then Inr (int n * td) else Inl OverflowError)"

definition dt_add :: "datetime \<Rightarrow> timedelta \<Rightarrow> error + datetime" where
  "dt_add d td =
     (if valid_datetime (d\<lparr>wall := wall d + td\<rparr>) then Inr (d\<lparr>wall := wall d + td\<rparr>)
      else Inl OverflowError)"

text \<open>
  Two naive values are compared by their readings, two aware ones by their instants; a
  naive and an aware one raise \<open>TypeError\<close>.
\<close>

definition dt_sub :: "datetime \<Rightarrow> datetime \<Rightarrow> error + timedelta" where
  "dt_sub a b =
     (case (utcoffset a, utcoffset b) of
        (None, None) \<Rightarrow> Inr (wall a - wall b)
      | (Some oa, Some ob) \<Rightarrow> Inr ((wall a - oa) - (wall b - ob))
      | _ \<Rightarrow> Inl TypeError)"

text \<open>\<open>int(td.total_seconds())\<close>: the whole seconds, rounded towards zero.\<close>

definition whole_seconds :: "timedelta \<Rightarrow> int" where
  "whole_seconds td = (if td < 0 then - ((- td) div 1000000) else td div 1000000)"

subsection \<open>The calendar\<close>

definition is_leap :: "int \<Rightarrow> bool" where
  "is_leap year = (year mod 4 = 0 \<and> (year mod 100 \<noteq> 0 \<or> year mod 400 = 0))"

definition days_in_month_tab :: "int list" where
  "days_in_month_tab = [0, 31, 28, 31, 30, 31, 30, 31, 31, 30, 31, 30, 31]"

definition days_before_month_tab :: "int list" where
  "days_before_month_tab = [0, 0, 31, 59, 90, 120, 151, 181, 212, 243, 273, 304, 334]"

definition days_in_month :: "int \<Rightarrow> int \<Rightarrow> int" where
  "days_in_month year month =
     (if month = 2 \<and> is_leap year then 29 else days_in_month_tab ! nat month)"

definition days_before_month :: "int \<Rightarrow> int \<Rightarrow> int" where
  "days_before_month year month =
     days_before_month_tab ! nat month + (if month > 2 \<and> is_leap year then 1 else 0)"

definition days_before_year :: "int \<Rightarrow> int" where
  "days_before_year year =
     (year - 1) * 365 + (year - 1) div 4 - (year - 1) div 100 + (year - 1) div 400"

text \<open>The ordinal of a date, 0001-01-01 being day 1.\<close>

definition ymd2ord :: "int \<Rightarrow> int \<Rightarrow> int \<Rightarrow> int" where
  "ymd2ord year month day = days_before_year year + days_before_month year month + day"

text \<open>The date of an ordinal: 400-year, 100-year and 4-year cycles, then single years.\<close>

definition ord2ymd :: "int \<Rightarrow> int \<times> int \<times> int" where
  "ord2ymd n =
     (let n0 = n - 1;
          n400 = n0 div 146097; r400 = n0 mod 146097;
          n100 = r400 div 36524; r100 = r400 mod 36524;
          n4 = r100 div 1461; r4 = r100 mod 1461;
          n1 = r4 div 365; r1 = r4 mod 365;
          year = n400 * 400 + 1 + n100 * 100 + n4 * 4 + n1
      in if n1 = 4 \<or> n100 = 4 then (year - 1, 12, 31)
         else
           let leapyear = (n1 = 3 \<and> (n4 \<noteq> 24 \<or> n100 = 3));
               month = (r1 + 50) div 32;
               preceding = days_before_month_tab ! nat month
                             + (if month > 2 \<and> leapyear then 1 else 0)
           in if preceding > r1
              then (year, month - 1,
                    r1 - (preceding - (days_in_month_tab ! nat (month - 1)
                                         + (if month - 1 = 2 \<and> leapyear then 1 else 0))) + 1)
              else (year, month, r1 - preceding + 1))"

text \<open>
  \<open>datetime.datetime(year, month, day, hour, minute, second)\<close>: a naive value, or
  \<open>ValueError\<close> when a field is out of range.
\<close>

definition datetime_of_tuple :: "int \<times> int \<times> int \<times> int \<times> int \<times> int \<Rightarrow> error + datetime" where
  "datetime_of_tuple t =
     (case t of (year, month, day, hour, minute, second) \<Rightarrow>
        if 1 \<le> year \<and> year \<le> 9999 \<and> 1 \<le> month \<and> month \<le> 12
           \<and> 1 \<le> day \<and> day \<le> days_in_month year month
           \<and> 0 \<le> hour \<and> hour \<le> 23 \<and> 0 \<le> minute \<and> minute \<le> 59
           \<and> 0 \<le> second \<and> second \<le> 59
        then Inr \<lparr>wall = ((ymd2ord year month day - 1) * 86400
                            + hour * 3600 + minute * 60 + second) * 1000000,
                  utcoffset = None\<rparr>
        else Inl ValueError)"

text \<open>\<open>s.zfill(w)\<close> on a string of digits.\<close>

definition zero_pad :: "nat \<Rightarrow> string \<Rightarrow> string" where
  "zero_pad w s = replicate (w - length s) (CHR ''0'') @ s"

text \<open>
  \<open>datetime.strftime(ts, "%m-%d-%Y %H:%M:%S")\<close>, each directive as the Python
  documentation gives it: month, day, hour, minute and second zero-padded to two digits,
  the year with century zero-padded to four.
\<close>

definition strftime :: "datetime \<Rightarrow> string" where
  "strftime ts =
     (let days = wall ts div us_per_day;
          secs = (wall ts mod us_per_day) div 1000000
      in case ord2ymd (days + 1) of (year, month, day) \<Rightarrow>
           zero_pad 2 (str_int month) @ ''-'' @ zero_pad 2 (str_int day) @ ''-''
           @ zero_pad 4 (str_int year) @ '' ''
           @ zero_pad 2 (str_int (secs div 3600)) @ '':''
           @ zero_pad 2 (str_int (secs mod 3600 div 60)) @ '':''
           @ zero_pad 2 (str_int (secs mod 60)))"

section \<open>The environment of a conversion\<close>

text \<open>
  What the program takes from outside: the rows \<open>csv.reader\<close> yields for the file at a
  path (with the separator and the quote character given), the rows of the first sheet
  of a workbook as \<open>xlrd\<close> yields them, \<open>dateutil\<close>'s \<open>parse\<close> and \<open>xlrd\<close>'s
  \<open>xldate_as_tuple\<close> (date mode 0). Each may raise.
\<close>

record env =
  csv_reader :: "string \<Rightarrow> char \<Rightarrow> char \<Rightarrow> error + table"
  sheet_rows :: "string \<Rightarrow> error + table"
  parse :: "string \<Rightarrow> error + datetime"
  xldate_as_tuple :: "pyfloat \<Rightarrow> error + (int \<times> int \<times> int \<times> int \<times> int \<times> int)"

definition read_csv_as_nested_list :: "env \<Rightarrow> string \<Rightarrow> char \<Rightarrow> char \<Rightarrow> error + table" where
  "read_csv_as_nested_list ev filename separator quote = csv_reader ev filename separator quote"

definition read_xlsx_as_nested_list :: "env \<Rightarrow> string \<Rightarrow> error + table" where
  "read_xlsx_as_nested_list ev xlsx_file = sheet_rows ev xlsx_file"

text \<open>Both library functions raise \<open>TypeError\<close> on a cell of the wrong kind.\<close>

definition parse_cell :: "env \<Rightarrow> cell \<Rightarrow> error + datetime" where
  "parse_cell ev c = (case c of Text s \<Rightarrow> parse ev s | Number _ \<Rightarrow> Inl TypeError)"

definition xldate_cell ::
  "env \<Rightarrow> cell \<Rightarrow> error + (int \<times> int \<times> int \<times> int \<times> int \<times> int)" where
  "xldate_cell ev c = (case c of Number f \<Rightarrow> xldate_as_tuple ev f | Text _ \<Rightarrow> Inl TypeError)"

section \<open>Timestamps: \<open>determine_period_t0\<close>, \<open>convert_to_date\<close>, \<open>get_timestamps\<close>\<close>

definition cell_at :: "table \<Rightarrow> nat \<Rightarrow> nat \<Rightarrow> error + cell" where
  "cell_at csv_table r c = and_then (getitem csv_table r) (\<lambda>row. getitem row c)"

text \<open>
  With an extension that is neither \<open>csv\<close> nor \<open>xlsx\<close> no branch binds \<open>period\<close>, and the
  \<open>return\<close> raises \<open>UnboundLocalError\<close>.
\<close>

definition determine_period_t0 :: "env \<Rightarrow> table \<Rightarrow> string \<Rightarrow> error + (timedelta \<times> datetime)" where
  "determine_period_t0 ev csv_table extension =
     (if extension = ''csv'' then
        and_then (cell_at csv_table 3 0) (\<lambda>c0.
        and_then (parse_cell ev c0) (\<lambda>time_0.
        and_then (cell_at csv_table 4 0) (\<lambda>c1.
        and_then (parse_cell ev c1) (\<lambda>time_1.
        and_then (dt_sub time_1 time_0) (\<lambda>period.
        Inr (period, time_0))))))
      else if extension = ''xlsx'' then
        and_then (cell_at csv_table 3 0) (\<lambda>c0.
        and_then (xldate_cell ev c0) (\<lambda>tup_0.
        and_then (cell_at csv_table 4 0) (\<lambda>c1.
        and_then (xldate_cell ev c1) (\<lambda>tup_1.
        and_then (datetime_of_tuple tup_0) (\<lambda>time_0.
        and_then (datetime_of_tuple tup_1) (\<lambda>time_1.
        and_then (dt_sub time_1 time_0) (\<lambda>period.
        Inr (period, time_0))))))))
      else Inl UnboundLocalError)"

text \<open>The first loop of \<open>convert_to_date\<close>: \<open>time_0 + ts * period\<close> for each data row.\<close>

definition datetime_list :: "table \<Rightarrow> timedelta \<times> datetime \<Rightarrow> error + datetime list" where
  "datetime_list csv_table period_tup =
     collect
       (\<lambda>ts. and_then (td_mul ts (fst period_tup)) (dt_add (snd period_tup)))
       [0 ..< length csv_table - 3]"

definition convert_to_date :: "table \<Rightarrow> timedelta \<times> datetime \<Rightarrow> error + string list" where
  "convert_to_date csv_table period_tup =
     and_then (datetime_list csv_table period_tup) (\<lambda>dts. Inr (map strftime dts))"

definition get_timestamps :: "env \<Rightarrow> table \<Rightarrow> string \<Rightarrow> error + string list" where
  "get_timestamps ev csv_table extension =
     and_then (determine_period_t0 ev csv_table extension) (convert_to_date csv_table)"

section \<open>Assembly: \<open>header_section\<close>, \<open>create_clc_table\<close>, \<open>write_csv_file\<close>\<close>

definition banner :: string where
  "banner = ''CSV to CLC File Conversion''"

definition attribution :: string where
  "attribution = ''Developed by D.P. (AMT)''"

definition separator_line :: string where
  "separator_line = replicate 50 (CHR ''='')"

definition header_section ::
  "env \<Rightarrow> table \<Rightarrow> string list \<Rightarrow> string list \<Rightarrow> string \<Rightarrow> error + val list" where
  "header_section ev csv_table tag_list timestamps extension =
     and_then (determine_period_t0 ev csv_table extension) (\<lambda>pt.
     and_then (getitem timestamps 0) (\<lambda>first.
     Inr [VStr banner, VStr attribution,
          VInt (int (length tag_list)), VInt (int (length tag_list)),
          VStr first, VInt (whole_seconds (fst pt)), VInt (int (length timestamps))]))"

text \<open>
  With an extension that is neither \<open>csv\<close> nor \<open>xlsx\<close>, \<open>csv_table\<close> is unbound at its
  first use.
\<close>

definition load_table :: "env \<Rightarrow> string \<Rightarrow> string \<Rightarrow> error + table" where
  "load_table ev file_name extension =
     (if extension = ''csv'' then read_csv_as_nested_list ev file_name (CHR '','') (CHR 0x27)
      else if extension = ''xlsx'' then read_xlsx_as_nested_list ev file_name
      else Inl UnboundLocalError)"

definition write_list ::
  "val list \<Rightarrow> string list \<Rightarrow> val list list \<Rightarrow> val list list" where
  "write_list header tag_list data_s =
     map (\<lambda>h. [h]) header @ [[VStr separator_line]]
     @ map (\<lambda>tags. [VStr tags]) tag_list @ [[VStr separator_line]]
     @ data_s @ [[VStr separator_line]]"

definition create_clc_table ::
  "env \<Rightarrow> string \<Rightarrow> string \<Rightarrow> error + (val list list \<times> string list)" where
  "create_clc_table ev file_name extension =
     and_then (load_table ev file_name extension) (\<lambda>csv_table.
     and_then (clc_tags_descriptions csv_table) (\<lambda>tags.
     and_then (get_timestamps ev csv_table extension) (\<lambda>timestamps.
     and_then (format_data csv_table) (\<lambda>data.
     and_then (data_section timestamps data) (\<lambda>data_s.
     and_then (header_section ev csv_table (fst tags) timestamps extension) (\<lambda>header.
     Inr (write_list header (fst tags) data_s, snd tags)))))))"

text \<open>\<open>s.split(c)\<close>: the pieces between the occurrences of \<open>c\<close>, at least one piece.\<close>

fun split :: "char \<Rightarrow> string \<Rightarrow> string list" where
  "split c [] = [[]]"
| "split c (x # xs) =
     (if x = c then [] # split c xs
      else (case split c xs of
              p # ps \<Rightarrow> (x # p) # ps
            | [] \<Rightarrow> [[x]]))"

text \<open>
  \<open>write_csv_file\<close> returns the files it wrote, in order, each with the rows handed to
  its \<open>csv.writer\<close>; an exception leaves none written.
\<close>

definition write_csv_file ::
  "env \<Rightarrow> string \<Rightarrow> error + (string \<times> val list list) list" where
  "write_csv_file ev file_name =
     (let clc_str = split (CHR ''.'') file_name;
          clc_file_name = hd clc_str @ ''.clc'';
          clc_error_file = hd clc_str @ ''_errors.txt''
      in and_then (getitem clc_str 1) (\<lambda>extension.
         and_then (create_clc_table ev file_name extension) (\<lambda>writes.
         Inr ((clc_file_name, fst writes)
              # (if snd writes = [] then []
                 else [(clc_error_file, map (\<lambda>rows. [VStr rows]) (snd writes))])))))"

section \<open>Notions used to state the results\<close>

text \<open>
  What \<open>clc_tags_descriptions\<close> computes for one column, read off its loop body: the
  sanitized tag, the collapsed description and units, the metadata line and the warnings
  of the column. \<open>column_ok\<close> says that the three header cells of the column exist and are
  strings, which is when the loop body does not raise.
\<close>

definition cell_text :: "cell \<Rightarrow> string" where
  "cell_text c = (case c of Text s \<Rightarrow> s | Number _ \<Rightarrow> [])"

definition is_text :: "cell \<Rightarrow> bool" where
  "is_text c = (case c of Text _ \<Rightarrow> True | Number _ \<Rightarrow> False)"

definition column_ok :: "table \<Rightarrow> nat \<Rightarrow> bool" where
  "column_ok csv_table idx =
     (2 < length csv_table
      \<and> idx < length (csv_table ! 0) \<and> is_text (csv_table ! 0 ! idx)
      \<and> idx < length (csv_table ! 1) \<and> is_text (csv_table ! 1 ! idx)
      \<and> idx < length (csv_table ! 2) \<and> is_text (csv_table ! 2 ! idx))"

definition column_tag :: "table \<Rightarrow> nat \<Rightarrow> string" where
  "column_tag csv_table idx = sub_non_alnum (cell_text (csv_table ! 0 ! idx))"

definition column_desc :: "table \<Rightarrow> nat \<Rightarrow> string" where
  "column_desc csv_table idx = sub_spaces (cell_text (csv_table ! 1 ! idx))"

definition column_units :: "table \<Rightarrow> nat \<Rightarrow> string" where
  "column_units csv_table idx = sub_spaces (cell_text (csv_table ! 2 ! idx))"

definition column_line :: "table \<Rightarrow> nat \<Rightarrow> string" where
  "column_line csv_table idx =
     clc_string (column_tag csv_table idx) (column_desc csv_table idx)
       (column_units csv_table idx)"

definition column_warnings :: "table \<Rightarrow> nat \<Rightarrow> string list" where
  "column_warnings csv_table idx =
     (if length (column_tag csv_table idx) > 12
      then [variable_warning idx (column_tag csv_table idx)] else [])
     @ (if length (column_desc csv_table idx) > 40
        then [description_warning idx (column_tag csv_table idx)] else [])"

text \<open>
  What \<open>format_data\<close> appends for one cell, the value and the quality flag, and for one
  row of the table.
\<close>

definition sample :: "cell \<Rightarrow> val list" where
  "sample c =
     (case py_float c of
        Inr v \<Rightarrow> [VFloat v, VStr ''G'']
      | Inl _ \<Rightarrow> [VInt (- 9999), VStr ''B''])"

definition row_samples :: "cell list \<Rightarrow> val list" where
  "row_samples row = concat (map sample (drop 1 row))"

text \<open>
  The \<open>datetime\<close> generated for data row \<open>i\<close> from the anchor and the period, the
  condition under which generating it for every data row raises no \<open>OverflowError\<close>, and
  the line of data row \<open>i\<close>.
\<close>

definition generated :: "datetime \<Rightarrow> timedelta \<Rightarrow> nat \<Rightarrow> datetime" where
  "generated time_0 period i = time_0\<lparr>wall := wall time_0 + int i * period\<rparr>"

definition steps_valid :: "table \<Rightarrow> timedelta \<Rightarrow> datetime \<Rightarrow> bool" where
  "steps_valid csv_table period time_0 =
     (\<forall>i < length csv_table - 3.
        valid_timedelta (int i * period) \<and> valid_datetime (generated time_0 period i))"

definition data_line :: "table \<Rightarrow> timedelta \<Rightarrow> datetime \<Rightarrow> nat \<Rightarrow> val list" where
  "data_line csv_table period time_0 i =
     VStr (strftime (generated time_0 period i)) # row_samples (csv_table ! (i + 3))"

text \<open>The spellings of infinity and not-a-number \<open>float\<close> accepts, in any letter case.\<close>

definition special_word :: "string \<Rightarrow> bool" where
  "special_word w =
     (map lower w = ''inf'' \<or> map lower w = ''infinity'' \<or> map lower w = ''nan'')"


section \<open>An example conversion\<close>

text \<open>
  A small delimited-text export \<open>plant.csv\<close>: two tags, the first with special
  characters in its id and a description of 44 characters, the second with an id of 13
  letters; three data rows one second apart, with a numeric cell, a padded \<open>nan\<close>, a
  word, an empty cell and a signed infinity. \<open>example_parse\<close> stands for \<open>dateutil\<close>'s
  \<open>parse\<close> on the two timestamps that are read; 2020-01-01 00:00:00 is microsecond
  63713433600000000.
\<close>

definition example_table :: table where
  "example_table =
     [[Text ''Time'', Text ''TAG_1!'', Text ''ABCDEFGHIJKLM''],
      [Text ''Description'', Text ''Feed  pump discharge pressure, north unit 12'',
       Text ''Desc B''],
      [Text ''Units'', Text ''PSI'', Text ''F''],
      [Text ''01/01/2020 00:00:00'', Text ''10.0'', Text '' nan ''],
      [Text ''01/01/2020 00:00:01'', Text ''11.0'', Text ''abc''],
      [Text ''01/01/2020 00:00:02'', Text [], Text ''-Inf'']]"

definition example_parse :: "string \<Rightarrow> error + datetime" where
  "example_parse s =
     (if s = ''01/01/2020 00:00:00''
      then Inr \<lparr>wall = 63713433600000000, utcoffset = None\<rparr>
      else if s = ''01/01/2020 00:00:01''
      then Inr \<lparr>wall = 63713433601000000, utcoffset = None\<rparr>
      else Inl ValueError)"

definition example_env :: env where
  "example_env =
     \<lparr>csv_reader = (\<lambda>path separator quote.
          if path = ''plant.csv'' \<and> separator = CHR '','' \<and> quote = CHR 0x27
          then Inr example_table else Inl ReadError),
      sheet_rows = (\<lambda>path. Inl ReadError),
      parse = example_parse,
      xldate_as_tuple = (\<lambda>x. Inl ValueError)\<rparr>"

text \<open>The document and the diagnostics the conversion of \<open>plant.csv\<close> gives.\<close>

definition example_document :: "val list list" where
  "example_document =
     [[VStr ''CSV to CLC File Conversion''],
      [VStr ''Developed by D.P. (AMT)''], [VInt 2], [VInt 2],
      [VStr ''01-01-2020 00:00:00''], [VInt 1], [VInt 3],
      [VStr ''==================================================''],
      [VStr ''TAG1~~~TAG1~~~Feed pump discharge pressure, north unit 12~~~PSI''],
      [VStr ''ABCDEFGHIJKLM~~~ABCDEFGHIJKLM~~~Desc B~~~F''],
      [VStr ''==================================================''],
      [VStr ''01-01-2020 00:00:00'', VFloat (Finite False 100 (- 1)), VStr ''G'',
       VFloat NaN, VStr ''G''],
      [VStr ''01-01-2020 00:00:01'', VFloat (Finite False 110 (- 1)), VStr ''G'',
       VInt (- 9999), VStr ''B''],
      [VStr ''01-01-2020 00:00:02'', VInt (- 9999), VStr ''B'',
       VFloat (Infinity True), VStr ''G''],
      [VStr ''=================================================='']]"

definition example_errors :: "string list" where
  "example_errors =
     [''line9: TAG1 description length too long'',
      ''line10: ABCDEFGHIJKLM variable length too long'']"

section \<open>Sequencing, indexing and loops\<close>

lemma and_then_Inr [simp]: "and_then (Inr x) f = f x"
  by (simp add: and_then_def)

lemma and_then_Inl [simp]: "and_then (Inl e) f = Inl e"
  by (simp add: and_then_def)

lemma and_then_Inr_iff: "and_then m f = Inr y \<longleftrightarrow> (\<exists>x. m = Inr x \<and> f x = Inr y)"
  by (cases m) auto

lemma getitem_Inr_iff: "getitem xs i = Inr x \<longleftrightarrow> i < length xs \<and> x = xs ! i"
  by (auto simp: getitem_def)

lemma getitem_in_range [simp]: "i < length xs \<Longrightarrow> getitem xs i = Inr (xs ! i)"
  by (simp add: getitem_def)

lemma collect_Inr_iff: "collect f xs = Inr ys \<longleftrightarrow> map f xs = map Inr ys"
proof (induction xs arbitrary: ys)
  case Nil
  show ?case by auto
next
  case (Cons x xs)
  show ?case
    by (cases ys) (auto simp: and_then_Inr_iff Cons.IH)
qed

lemma collect_map: "(\<And>x. x \<in> set xs \<Longrightarrow> f x = Inr (g x)) \<Longrightarrow> collect f xs = Inr (map g xs)"
  by (simp add: collect_Inr_iff)

section \<open>Results on the tag metadata\<close>

lemma sub_non_alnum_filter: "sub_non_alnum s = filter is_alnum s"
proof (induction s rule: sub_non_alnum.induct)
  case 1
  show ?case by simp
next
  case (2 c cs)
  show ?case
  proof (cases "is_alnum c")
    case True
    with 2 show ?thesis by simp
  next
    case False
    have "filter is_alnum (dropWhile (\<lambda>x. \<not> is_alnum x) cs) = filter is_alnum cs"
      by (induction cs) auto
    with False 2 show ?thesis by simp
  qed
qed

lemma re_sub_non_alnum_Inr_iff:
  "re_sub_non_alnum c = Inr s \<longleftrightarrow> is_text c \<and> s = sub_non_alnum (cell_text c)"
  by (cases c) (auto simp: re_sub_non_alnum_def is_text_def cell_text_def)

lemma re_sub_spaces_Inr_iff:
  "re_sub_spaces c = Inr s \<longleftrightarrow> is_text c \<and> s = sub_spaces (cell_text c)"
  by (cases c) (auto simp: re_sub_spaces_def is_text_def cell_text_def)

lemma tags_step_Inr_iff:
  "tags_step t idx acc = Inr r \<longleftrightarrow>
     column_ok t idx
     \<and> r = (fst acc @ [column_line t idx], snd acc @ column_warnings t idx)"
  unfolding tags_step_def and_then_Inr_iff getitem_Inr_iff re_sub_non_alnum_Inr_iff
    re_sub_spaces_Inr_iff column_ok_def column_line_def column_warnings_def
    column_tag_def column_desc_def column_units_def
  by auto

lemma tags_loop_Inr_iff:
  "tags_loop t idxs acc = Inr r \<longleftrightarrow>
     (\<forall>i \<in> set idxs. column_ok t i)
     \<and> r = (fst acc @ map (column_line t) idxs, snd acc @ concat (map (column_warnings t) idxs))"
proof (induction idxs arbitrary: acc)
  case Nil
  show ?case by auto
next
  case (Cons i idxs)
  show ?case
    by (auto simp: and_then_Inr_iff tags_step_Inr_iff Cons.IH)
qed

lemma clc_tags_descriptions_Inr_iff:
  "clc_tags_descriptions t = Inr r \<longleftrightarrow>
     t \<noteq> [] \<and> (\<forall>i \<in> {1 ..< length (t ! 0)}. column_ok t i)
     \<and> r = (map (column_line t) [1 ..< length (t ! 0)],
            concat (map (column_warnings t) [1 ..< length (t ! 0)]))"
  unfolding clc_tags_descriptions_def and_then_Inr_iff getitem_Inr_iff tags_loop_Inr_iff
  by auto

section \<open>Results on number formatting\<close>

lemma less_10_cases:
  "(k::nat) < 10 \<Longrightarrow> k = 0 \<or> k = 1 \<or> k = 2 \<or> k = 3 \<or> k = 4 \<or> k = 5 \<or> k = 6 \<or> k = 7 \<or> k = 8 \<or> k = 9"
  by arith

lemma digit_val_digit: "k < 10 \<Longrightarrow> digit_val (digit_chars ! k) = k"
  using less_10_cases [of k] by (auto simp: digit_val_def digit_chars_def)

lemma is_digit_digit: "k < 10 \<Longrightarrow> is_digit (digit_chars ! k)"
  using less_10_cases [of k] by (auto simp: is_digit_def digit_chars_def)

lemma digits_val_snoc: "digits_val (xs @ [c]) = 10 * digits_val xs + digit_val c"
  by (simp add: digits_val_def)

lemma digits_val_str_nat: "digits_val (str_nat n) = n"
proof (induction n rule: str_nat.induct)
  case (1 n)
  show ?case
  proof (cases "n < 10")
    case True
    then show ?thesis
      by (subst str_nat.simps) (simp add: digits_val_def digit_val_digit)
  next
    case False
    with 1 show ?thesis
      by (subst str_nat.simps) (simp add: digits_val_snoc digit_val_digit)
  qed
qed

lemma str_nat_inj: "str_nat a = str_nat b \<Longrightarrow> a = b"
  by (metis digits_val_str_nat)

lemma str_nat_digits: "c \<in> set (str_nat n) \<Longrightarrow> is_digit c"
proof (induction n rule: str_nat.induct)
  case (1 n)
  show ?case
  proof (cases "n < 10")
    case True
    with "1.prems" show ?thesis
      by (subst (asm) str_nat.simps) (simp add: is_digit_digit)
  next
    case False
    with 1 show ?thesis
      by (subst (asm) (2) str_nat.simps) (auto simp: is_digit_digit)
  qed
qed

lemma length_str_nat: "0 < k \<Longrightarrow> n < 10 ^ k \<Longrightarrow> length (str_nat n) \<le> k"
proof (induction n arbitrary: k rule: str_nat.induct)
  case (1 n)
  show ?case
  proof (cases "n < 10")
    case True
    with "1.prems" show ?thesis
      by (subst str_nat.simps) simp
  next
    case False
    then obtain j where k: "k = Suc j" and j: "0 < j"
      using "1.prems" by (cases k; cases "k - 1") auto
    from "1.prems" k have "n div 10 < 10 ^ j"
      by (simp add: less_mult_imp_div_less mult.commute)
    with 1 False j have "length (str_nat (n div 10)) \<le> j" by simp
    with False k show ?thesis
      by (subst str_nat.simps) simp
  qed
qed

lemma str_nat_nonempty: "str_nat n \<noteq> []"
  by (subst str_nat.simps) simp

section \<open>The warnings of different columns differ\<close>

lemma append_sep_eq:
  "c \<notin> set xs \<Longrightarrow> c \<notin> set ys \<Longrightarrow> xs @ c # r = ys @ c # r' \<Longrightarrow> xs = ys \<and> r = r'"
proof (induction xs arbitrary: ys)
  case Nil
  then show ?case by (cases ys) auto
next
  case (Cons x xs)
  then show ?case by (cases ys) auto
qed

lemma colon_not_digit: "\<not> is_digit (CHR '':'')"
  by (simp add: is_digit_def digit_chars_def)

lemma space_not_alnum: "\<not> is_alnum (CHR '' '')"
  by (simp add: is_alnum_def alnum_chars_def)

lemma column_tag_alnum: "c \<in> set (column_tag t idx) \<Longrightarrow> is_alnum c"
  by (simp add: column_tag_def sub_non_alnum_filter)

lemma warning_line_eq:
  assumes "''line'' @ str_nat i @ '': '' @ a @ CHR '' '' # r = ''line'' @ str_nat j @ '': '' @ b @ CHR '' '' # r'"
    and "CHR '' '' \<notin> set a" "CHR '' '' \<notin> set b"
  shows "i = j \<and> a = b \<and> r = r'"
proof -
  have c: "CHR '':'' \<notin> set (str_nat i)" "CHR '':'' \<notin> set (str_nat j)"
    using str_nat_digits colon_not_digit by blast+
  from assms(1) have "str_nat i @ CHR '':'' # (CHR '' '' # a @ CHR '' '' # r)
      = str_nat j @ CHR '':'' # (CHR '' '' # b @ CHR '' '' # r')"
    by simp
  from append_sep_eq [OF c this]
  have ij: "str_nat i = str_nat j" and "a @ CHR '' '' # r = b @ CHR '' '' # r'"
    by simp_all
  with append_sep_eq [OF assms(2,3)] str_nat_inj show ?thesis by blast
qed

lemma variable_warning_eq:
  assumes "variable_warning i a = variable_warning j b"
    and "CHR '' '' \<notin> set a" "CHR '' '' \<notin> set b"
  shows "i = j \<and> a = b"
  using warning_line_eq [of "i + 8" a "''variable length too long''" "j + 8" b
      "''variable length too long''"] assms
  by (simp add: variable_warning_def)

lemma description_warning_eq:
  assumes "description_warning i a = description_warning j b"
    and "CHR '' '' \<notin> set a" "CHR '' '' \<notin> set b"
  shows "i = j \<and> a = b"
  using warning_line_eq [of "i + 8" a "''description length too long''" "j + 8" b
      "''description length too long''"] assms
  by (simp add: description_warning_def)

lemma variable_description_neq:
  assumes "CHR '' '' \<notin> set a" "CHR '' '' \<notin> set b"
  shows "variable_warning i a \<noteq> description_warning j b"
  using warning_line_eq [of "i + 8" a "''variable length too long''" "j + 8" b
      "''description length too long''"] assms
  by (auto simp: variable_warning_def description_warning_def)

lemma column_tag_no_space: "CHR '' '' \<notin> set (column_tag t idx)"
  using column_tag_alnum space_not_alnum by blast

lemma count_list_concat_one:
  "distinct xs \<Longrightarrow> i \<in> set xs \<Longrightarrow> (\<And>j. j \<in> set xs \<Longrightarrow> j \<noteq> i \<Longrightarrow> w \<notin> set (f j))
   \<Longrightarrow> count_list (concat (map f xs)) w = count_list (f i) w"
proof (induction xs)
  case Nil
  then show ?case by simp
next
  case (Cons x xs)
  show ?case
  proof (cases "x = i")
    case True
    with Cons.prems have "\<And>j. j \<in> set xs \<Longrightarrow> w \<notin> set (f j)" by auto
    then have "w \<notin> set (concat (map f xs))" by auto
    with True show ?thesis by simp
  next
    case False
    with Cons show ?thesis by auto
  qed
qed

lemma variable_warning_other_column:
  "j \<noteq> i \<Longrightarrow> variable_warning i (column_tag t i) \<notin> set (column_warnings t j)"
  using variable_warning_eq [of i "column_tag t i" j "column_tag t j"]
    variable_description_neq [of "column_tag t i" "column_tag t j" i j]
  by (auto simp: column_warnings_def column_tag_no_space)

lemma description_warning_other_column:
  "j \<noteq> i \<Longrightarrow> description_warning i (column_tag t i) \<notin> set (column_warnings t j)"
  using description_warning_eq [of i "column_tag t i" j "column_tag t j"]
    variable_description_neq [of "column_tag t j" "column_tag t i" j i]
  by (auto simp: column_warnings_def column_tag_no_space)

lemma count_variable_warning:
  assumes "1 \<le> i" "i < n"
  shows "count_list (concat (map (column_warnings t) [1 ..< n])) (variable_warning i (column_tag t i))
         = (if length (column_tag t i) > 12 then 1 else 0)"
proof -
  have "count_list (concat (map (column_warnings t) [1 ..< n])) (variable_warning i (column_tag t i))
        = count_list (column_warnings t i) (variable_warning i (column_tag t i))"
    using assms by (intro count_list_concat_one) (auto simp: variable_warning_other_column)
  also have "\<dots> = (if length (column_tag t i) > 12 then 1 else 0)"
    using variable_description_neq [of "column_tag t i" "column_tag t i" i i]
    by (auto simp: column_warnings_def column_tag_no_space)
  finally show ?thesis .
qed

lemma count_description_warning:
  assumes "1 \<le> i" "i < n"
  shows "count_list (concat (map (column_warnings t) [1 ..< n])) (description_warning i (column_tag t i))
         = (if length (column_desc t i) > 40 then 1 else 0)"
proof -
  have "count_list (concat (map (column_warnings t) [1 ..< n])) (description_warning i (column_tag t i))
        = count_list (column_warnings t i) (description_warning i (column_tag t i))"
    using assms by (intro count_list_concat_one) (auto simp: description_warning_other_column)
  also have "\<dots> = (if length (column_desc t i) > 40 then 1 else 0)"
    using variable_description_neq [of "column_tag t i" "column_tag t i" i i]
    by (auto simp: column_warnings_def column_tag_no_space)
  finally show ?thesis .
qed

section \<open>Results on the numeric coercion\<close>

lemma py_float_error: "py_float c = Inl e \<Longrightarrow> e = ValueError"
  by (cases c) (auto simp: py_float_def float_of_str_def split: prod.splits option.splits)

lemma format_cell_eq: "format_cell c = Inr (sample c)"
  using py_float_error [of c]
  by (cases "py_float c") (auto simp: format_cell_def sample_def)

lemma map_nth_upt_drop: "map (\<lambda>i. f (xs ! i)) [k ..< length xs] = map f (drop k xs)"
  by (rule nth_equalityI) auto

lemma format_row_eq: "format_row row = Inr (row_samples row)"
proof -
  have "collect (\<lambda>data_idx. format_cell (row ! data_idx)) [1 ..< length row]
        = Inr (map (\<lambda>i. sample (row ! i)) [1 ..< length row])"
    by (rule collect_map) (simp add: format_cell_eq)
  then show ?thesis
    unfolding format_row_def row_samples_def map_nth_upt_drop by simp
qed

lemma format_data_eq: "format_data t = Inr (map row_samples (drop 3 t))"
proof -
  have "format_data t = Inr (map (\<lambda>i. row_samples (t ! i)) [3 ..< length t])"
    unfolding format_data_def by (rule collect_map) (simp add: format_row_eq)
  then show ?thesis
    unfolding map_nth_upt_drop .
qed

lemma data_section_eq:
  assumes "length ts \<le> length data"
  shows "data_section ts data = Inr (map (\<lambda>i. VStr (ts ! i) # data ! i) [0 ..< length ts])"
  unfolding data_section_def
proof (rule collect_map)
  fix i assume "i \<in> set [0 ..< length ts]"
  with assms have "i < length data" by simp
  then show "and_then (getitem data i)
        (\<lambda>d. Inr (VStr (ts ! i) # map (\<lambda>idx. d ! idx) [0 ..< length d])) = Inr (VStr (ts ! i) # data ! i)"
    by (simp add: map_nth)
qed

lemma length_row_samples: "length (row_samples row) = 2 * (length row - 1)"
proof -
  have "length (concat (map sample cs)) = 2 * length cs" for cs
    by (induction cs) (auto simp: sample_def split: sum.splits)
  then show ?thesis by (simp add: row_samples_def)
qed

section \<open>Results on the timestamps\<close>

lemma td_mul_Inr_iff: "td_mul n p = Inr d \<longleftrightarrow> valid_timedelta (int n * p) \<and> d = int n * p"
  by (auto simp: td_mul_def)

lemma dt_add_Inr_iff:
  "dt_add t0 d = Inr r \<longleftrightarrow> valid_datetime (t0\<lparr>wall := wall t0 + d\<rparr>) \<and> r = t0\<lparr>wall := wall t0 + d\<rparr>"
  by (auto simp: dt_add_def)

text \<open>A reading in the range of \<open>datetime\<close> is never further than a \<open>timedelta\<close> away.\<close>

lemma valid_step:
  assumes "valid_datetime t0" "valid_datetime (t0\<lparr>wall := wall t0 + d\<rparr>)"
  shows "valid_timedelta d"
  using assms by (simp add: valid_datetime_def valid_timedelta_def max_ordinal_def us_per_day_def)

lemma collect_upt_Inr_iff:
  "collect f [0 ..< n] = Inr ys \<longleftrightarrow> length ys = n \<and> (\<forall>i < n. f i = Inr (ys ! i))"
  unfolding collect_Inr_iff list_eq_iff_nth_eq by auto

lemma datetime_step_Inr_iff:
  "and_then (td_mul i p) (dt_add t0) = Inr d \<longleftrightarrow>
     valid_timedelta (int i * p) \<and> valid_datetime (t0\<lparr>wall := wall t0 + int i * p\<rparr>)
     \<and> d = t0\<lparr>wall := wall t0 + int i * p\<rparr>"
  unfolding and_then_Inr_iff td_mul_Inr_iff dt_add_Inr_iff by blast

lemma datetime_list_Inr_iff:
  "datetime_list t (p, t0) = Inr ds \<longleftrightarrow>
     (\<forall>i < length t - 3. valid_timedelta (int i * p)
          \<and> valid_datetime (t0\<lparr>wall := wall t0 + int i * p\<rparr>))
     \<and> ds = map (\<lambda>i. t0\<lparr>wall := wall t0 + int i * p\<rparr>) [0 ..< length t - 3]"
  (is "?L \<longleftrightarrow> ?V \<and> ?E")
proof
  assume ?L
  then have len: "length ds = length t - 3"
    and each: "\<And>i. i < length t - 3 \<Longrightarrow> and_then (td_mul i p) (dt_add t0) = Inr (ds ! i)"
    unfolding datetime_list_def collect_upt_Inr_iff by simp_all
  have e: ?E
    using len each by (intro nth_equalityI) (simp_all add: datetime_step_Inr_iff)
  have v: ?V
    using each by (simp add: datetime_step_Inr_iff)
  from v e show "?V \<and> ?E" by (rule conjI)
next
  assume "?V \<and> ?E"
  then show ?L
    unfolding datetime_list_def collect_upt_Inr_iff by (simp add: datetime_step_Inr_iff)
qed

lemma convert_to_date_Inr_iff:
  "convert_to_date t pt = Inr ss \<longleftrightarrow> (\<exists>ds. datetime_list t pt = Inr ds \<and> ss = map strftime ds)"
  by (auto simp: convert_to_date_def and_then_Inr_iff)

lemma get_timestamps_Inr_iff:
  "get_timestamps ev t ext = Inr ss \<longleftrightarrow>
     (\<exists>pt ds. determine_period_t0 ev t ext = Inr pt \<and> datetime_list t pt = Inr ds
        \<and> ss = map strftime ds)"
  by (auto simp: get_timestamps_def and_then_Inr_iff convert_to_date_Inr_iff)

lemma cell_at_Inr_iff:
  "cell_at t r c = Inr x \<longleftrightarrow> r < length t \<and> c < length (t ! r) \<and> x = t ! r ! c"
  by (auto simp: cell_at_def and_then_Inr_iff getitem_Inr_iff)

lemma determine_period_t0_rows:
  "determine_period_t0 ev t ext = Inr pt \<Longrightarrow>
     5 \<le> length t \<and> t ! 3 \<noteq> [] \<and> t ! 4 \<noteq> [] \<and> (ext = ''csv'' \<or> ext = ''xlsx'')"
  by (auto simp: determine_period_t0_def and_then_Inr_iff cell_at_Inr_iff split: if_splits)

section \<open>Results on the assembly\<close>

lemma datetime_list_generated:
  "datetime_list t (p, t0) = Inr ds \<longleftrightarrow>
     steps_valid t p t0 \<and> ds = map (generated t0 p) [0 ..< length t - 3]"
  unfolding datetime_list_Inr_iff steps_valid_def generated_def ..

lemma header_section_Inr_iff:
  "header_section ev t tag_list ts ext = Inr h \<longleftrightarrow>
     (\<exists>pt. determine_period_t0 ev t ext = Inr pt \<and> ts \<noteq> []
        \<and> h = [VStr banner, VStr attribution,
               VInt (int (length tag_list)), VInt (int (length tag_list)),
               VStr (ts ! 0), VInt (whole_seconds (fst pt)), VInt (int (length ts))])"
  unfolding header_section_def and_then_Inr_iff getitem_Inr_iff by auto

lemma data_section_lines:
  "data_section (map strftime (map (generated t0 p) [0 ..< length t - 3]))
       (map row_samples (drop 3 t))
   = Inr (map (data_line t p t0) [0 ..< length t - 3])"
proof -
  have "data_section (map strftime (map (generated t0 p) [0 ..< length t - 3]))
       (map row_samples (drop 3 t))
     = Inr (map (\<lambda>i. VStr (map strftime (map (generated t0 p) [0 ..< length t - 3]) ! i)
                      # map row_samples (drop 3 t) ! i) [0 ..< length t - 3])"
    using data_section_eq [of "map strftime (map (generated t0 p) [0 ..< length t - 3])"
        "map row_samples (drop 3 t)"] by simp
  also have "map (\<lambda>i. VStr (map strftime (map (generated t0 p) [0 ..< length t - 3]) ! i)
                      # map row_samples (drop 3 t) ! i) [0 ..< length t - 3]
      = map (data_line t p t0) [0 ..< length t - 3]"
    by (rule map_cong) (auto simp: data_line_def add.commute)
  finally show ?thesis .
qed

text \<open>
  When \<open>create_clc_table\<close> returns, and what: the table was read, its header rows gave
  the metadata lines and the warnings, the period and the anchor were determined, every
  generated \<open>datetime\<close> was in range; the document is then the one below.
\<close>

lemma create_clc_table_Inr_iff:
  "create_clc_table ev f ext = Inr r \<longleftrightarrow>
     (\<exists>t tags errs p t0.
        load_table ev f ext = Inr t
        \<and> clc_tags_descriptions t = Inr (tags, errs)
        \<and> determine_period_t0 ev t ext = Inr (p, t0)
        \<and> steps_valid t p t0
        \<and> r = (write_list
                 [VStr banner, VStr attribution,
                  VInt (int (length tags)), VInt (int (length tags)),
                  VStr (strftime (generated t0 p 0)), VInt (whole_seconds p),
                  VInt (int (length t - 3))]
                 tags (map (data_line t p t0) [0 ..< length t - 3]),
               errs))"
  (is "?L \<longleftrightarrow> ?R")
proof
  assume ?L
  then obtain t tg ts data data_s h where
    load: "load_table ev f ext = Inr t" and
    tags: "clc_tags_descriptions t = Inr tg" and
    stamps: "get_timestamps ev t ext = Inr ts" and
    data: "format_data t = Inr data" and
    sect: "data_section ts data = Inr data_s" and
    head: "header_section ev t (fst tg) ts ext = Inr h" and
    r: "r = (write_list h (fst tg) data_s, snd tg)"
    unfolding create_clc_table_def and_then_Inr_iff by blast
  from stamps obtain pt ds where
    det: "determine_period_t0 ev t ext = Inr pt" and
    ds: "datetime_list t pt = Inr ds" and ts: "ts = map strftime ds"
    unfolding get_timestamps_Inr_iff by blast
  obtain p t0 where pt: "pt = (p, t0)" by (cases pt)
  from ds pt have valid: "steps_valid t p t0"
    and ds_eq: "ds = map (generated t0 p) [0 ..< length t - 3]"
    by (simp_all add: datetime_list_generated)
  from det have len: "5 \<le> length t" by (simp add: determine_period_t0_rows)
  from data have data_eq: "data = map row_samples (drop 3 t)"
    by (simp add: format_data_eq)
  from sect have s_eq: "data_s = map (data_line t p t0) [0 ..< length t - 3]"
    unfolding ts ds_eq data_eq data_section_lines by simp
  from head det len have h_eq: "h = [VStr banner, VStr attribution,
      VInt (int (length (fst tg))), VInt (int (length (fst tg))),
      VStr (strftime (generated t0 p 0)), VInt (whole_seconds p), VInt (int (length t - 3))]"
    unfolding header_section_Inr_iff ts ds_eq pt by (auto simp: nth_append)
  show ?R
    using load tags det valid r
    unfolding pt s_eq h_eq by (intro exI [of _ t] exI [of _ "fst tg"] exI [of _ "snd tg"]
        exI [of _ p] exI [of _ t0]) simp
next
  assume ?R
  then obtain t tags errs p t0 where
    load: "load_table ev f ext = Inr t" and
    tags: "clc_tags_descriptions t = Inr (tags, errs)" and
    det: "determine_period_t0 ev t ext = Inr (p, t0)" and
    valid: "steps_valid t p t0" and
    r: "r = (write_list
                 [VStr banner, VStr attribution,
                  VInt (int (length tags)), VInt (int (length tags)),
                  VStr (strftime (generated t0 p 0)), VInt (whole_seconds p),
                  VInt (int (length t - 3))]
                 tags (map (data_line t p t0) [0 ..< length t - 3]),
               errs)"
    by blast
  from det have len: "5 \<le> length t" by (simp add: determine_period_t0_rows)
  have stamps: "get_timestamps ev t ext
      = Inr (map strftime (map (generated t0 p) [0 ..< length t - 3]))"
    using det valid by (simp add: get_timestamps_def convert_to_date_def
        iffD2 [OF datetime_list_generated])
  have head: "header_section ev t tags
        (map strftime (map (generated t0 p) [0 ..< length t - 3])) ext
      = Inr [VStr banner, VStr attribution,
                  VInt (int (length tags)), VInt (int (length tags)),
                  VStr (strftime (generated t0 p 0)), VInt (whole_seconds p),
                  VInt (int (length t - 3))]"
    using det len unfolding header_section_Inr_iff by (auto simp: nth_append)
  show ?L
    unfolding create_clc_table_def
    by (simp del: map_map add: load tags stamps format_data_eq data_section_lines head r)
qed

lemma write_list_nth_tag:
  "length header = 7 \<Longrightarrow> k < length tags
   \<Longrightarrow> write_list header tags data_s ! (8 + k) = [VStr (tags ! k)]"
  by (simp add: write_list_def nth_append)



section \<open>The example, evaluated\<close>

lemma example_load: "load_table example_env ''plant.csv'' ''csv'' = Inr example_table"
  by (simp add: load_table_def read_csv_as_nested_list_def example_env_def)

lemma example_period:
  "determine_period_t0 example_env example_table ''csv''
   = Inr (1000000, \<lparr>wall = 63713433600000000, utcoffset = None\<rparr>)"
  by code_simp

lemma example_tags:
  "clc_tags_descriptions example_table =
     Inr ([''TAG1~~~TAG1~~~Feed pump discharge pressure, north unit 12~~~PSI'',
           ''ABCDEFGHIJKLM~~~ABCDEFGHIJKLM~~~Desc B~~~F''],
          [''line9: TAG1 description length too long'',
           ''line10: ABCDEFGHIJKLM variable length too long''])"
  by code_simp

lemma example_create:
  "create_clc_table example_env ''plant.csv'' ''csv'' =
   Inr ([[VStr ''CSV to CLC File Conversion''],
       [VStr ''Developed by D.P. (AMT)''], [VInt 2], [VInt 2],
       [VStr ''01-01-2020 00:00:00''], [VInt 1], [VInt 3],
       [VStr ''==================================================''],
       [VStr
         ''TAG1~~~TAG1~~~Feed pump discharge pressure, north unit 12~~~PSI''],
       [VStr ''ABCDEFGHIJKLM~~~ABCDEFGHIJKLM~~~Desc B~~~F''],
       [VStr ''==================================================''],
       [VStr ''01-01-2020 00:00:00'', VFloat (Finite False 100 (- 1)),
        VStr ''G'', VFloat NaN, VStr ''G''],
       [VStr ''01-01-2020 00:00:01'', VFloat (Finite False 110 (- 1)),
        VStr ''G'', VInt (- 9999), VStr ''B''],
       [VStr ''01-01-2020 00:00:02'', VInt (- 9999), VStr ''B'',
        VFloat (Infinity True), VStr ''G''],
       [VStr ''=================================================='']],
      [''line9: TAG1 description length too long'',
       ''line10: ABCDEFGHIJKLM variable length too long''])"
  by code_simp

section \<open>The claims\<close>

text \<open>
  C8. Sanitizing a tag id, that is removing every character that is not an ASCII letter
  or digit, is idempotent, and every character of a sanitized id is in \<open>[A-Za-z0-9]\<close>.
\<close>

theorem sanitize_idempotent:
  "sub_non_alnum (sub_non_alnum s) = sub_non_alnum s \<and> list_all is_alnum (sub_non_alnum s)"
  by (simp add: sub_non_alnum_filter list_all_iff)

theorem sanitize_idempotent_witness:
  "sub_non_alnum (sub_non_alnum ''TAG_1!'') = sub_non_alnum ''TAG_1!''
   \<and> list_all is_alnum (sub_non_alnum ''TAG_1!'')
   \<and> sub_non_alnum ''TAG_1!'' = ''TAG1''"
proof -
  have "sub_non_alnum ''TAG_1!'' = ''TAG1''" by code_simp
  with sanitize_idempotent [of "''TAG_1!''"] show ?thesis by simp
qed





text \<open>
  C9. A column whose description, once its runs of spaces are collapsed, is longer than
  40 characters adds exactly one line \<open>line{idx+8}: {id} description length too long\<close> to
  the diagnostics, \<open>id\<close> being the sanitized tag id of the column and \<open>idx + 8\<close> the same
  number the oversize-id warning of the column carries.
\<close>

theorem description_warning_has_tag:
  assumes "clc_tags_descriptions csv_table = Inr (tag_list, errors)"
    and "1 \<le> idx" and "idx < length (csv_table ! 0)"
    and "40 < length (sub_spaces (cell_text (csv_table ! 1 ! idx)))"
  shows "count_list errors
           (''line'' @ str_nat (idx + 8) @ '': ''
            @ sub_non_alnum (cell_text (csv_table ! 0 ! idx))
            @ '' description length too long'') = 1"
proof -
  from assms(1) have "errors = concat (map (column_warnings csv_table) [1 ..< length (csv_table ! 0)])"
    by (simp add: clc_tags_descriptions_Inr_iff)
  with count_description_warning [OF assms(2,3), of csv_table] assms(4)
  show ?thesis
    by (simp add: description_warning_def column_tag_def column_desc_def)
qed

theorem description_warning_has_tag_witness:
  "clc_tags_descriptions example_table =
     Inr ([''TAG1~~~TAG1~~~Feed pump discharge pressure, north unit 12~~~PSI'',
           ''ABCDEFGHIJKLM~~~ABCDEFGHIJKLM~~~Desc B~~~F''],
          [''line9: TAG1 description length too long'',
           ''line10: ABCDEFGHIJKLM variable length too long''])
   \<and> (1::nat) < length (example_table ! 0)
   \<and> 40 < length (sub_spaces (cell_text (example_table ! 1 ! 1)))
   \<and> count_list [''line9: TAG1 description length too long'',
           ''line10: ABCDEFGHIJKLM variable length too long'']
        (''line'' @ str_nat (1 + 8) @ '': ''
            @ sub_non_alnum (cell_text (example_table ! 0 ! 1))
            @ '' description length too long'') = 1"
proof -
  have i: "(1::nat) < length (example_table ! 0)" by (simp add: example_table_def)
  have d: "40 < length (sub_spaces (cell_text (example_table ! 1 ! 1)))" by code_simp
  from description_warning_has_tag [OF example_tags _ i d] example_tags i d
  show ?thesis by simp
qed

text \<open>
  C5. Let the table be read, the header cells of every column after the first be
  strings, the period and the anchor be determined and every generated \<open>datetime\<close> be in
  range. Then for a column whose sanitized tag id is longer than 12 characters the
  conversion returns, its diagnostics hold exactly one line
  \<open>line{idx+8}: {id} variable length too long\<close>, and line \<open>idx + 8\<close> of the document
  (index \<open>idx + 7\<close>) is the metadata line of the column, with the whole id, twice.
\<close>

theorem oversize_tag_warning:
  assumes "load_table ev file_name extension = Inr csv_table"
    and "csv_table \<noteq> []"
    and "\<forall>i \<in> {1 ..< length (csv_table ! 0)}. column_ok csv_table i"
    and "determine_period_t0 ev csv_table extension = Inr (period, time_0)"
    and "steps_valid csv_table period time_0"
    and "1 \<le> idx" and "idx < length (csv_table ! 0)"
    and "12 < length (sub_non_alnum (cell_text (csv_table ! 0 ! idx)))"
  shows "\<exists>doc errors.
      create_clc_table ev file_name extension = Inr (doc, errors)
    \<and> count_list errors
         (''line'' @ str_nat (idx + 8) @ '': ''
          @ sub_non_alnum (cell_text (csv_table ! 0 ! idx))
          @ '' variable length too long'') = 1
    \<and> doc ! (idx + 7) =
         [VStr (sub_non_alnum (cell_text (csv_table ! 0 ! idx)) @ ''~~~''
                @ sub_non_alnum (cell_text (csv_table ! 0 ! idx)) @ ''~~~''
                @ sub_spaces (cell_text (csv_table ! 1 ! idx)) @ ''~~~''
                @ sub_spaces (cell_text (csv_table ! 2 ! idx)))]"
proof -
  let ?tags = "map (column_line csv_table) [1 ..< length (csv_table ! 0)]"
  let ?errs = "concat (map (column_warnings csv_table) [1 ..< length (csv_table ! 0)])"
  let ?hdr = "[VStr banner, VStr attribution,
                  VInt (int (length ?tags)), VInt (int (length ?tags)),
                  VStr (strftime (generated time_0 period 0)), VInt (whole_seconds period),
                  VInt (int (length csv_table - 3))]"
  let ?doc = "write_list ?hdr ?tags (map (data_line csv_table period time_0) [0 ..< length csv_table - 3])"
  have tags: "clc_tags_descriptions csv_table = Inr (?tags, ?errs)"
    using assms(2,3) by (simp add: clc_tags_descriptions_Inr_iff)
  have created: "create_clc_table ev file_name extension = Inr (?doc, ?errs)"
    unfolding create_clc_table_Inr_iff using assms(1,4,5) tags by blast
  have count: "count_list ?errs (variable_warning idx (column_tag csv_table idx)) = 1"
    using count_variable_warning [OF assms(6,7), of csv_table] assms(8)
    by (simp add: column_tag_def)
  from assms(6) obtain k where k: "idx = Suc k" by (cases idx) auto
  have "?doc ! (8 + k) = [VStr (?tags ! k)]"
    using assms(7) k by (intro write_list_nth_tag) simp_all
  moreover have "?tags ! k = column_line csv_table idx"
    using assms(7) k by simp
  moreover have "8 + k = idx + 7"
    using k by simp
  ultimately have line: "?doc ! (idx + 7) = [VStr (column_line csv_table idx)]"
    by (simp only:)
  have w: "variable_warning idx (column_tag csv_table idx) =
      ''line'' @ str_nat (idx + 8) @ '': ''
          @ sub_non_alnum (cell_text (csv_table ! 0 ! idx))
          @ '' variable length too long''"
    by (simp add: variable_warning_def column_tag_def)
  have l: "column_line csv_table idx =
      sub_non_alnum (cell_text (csv_table ! 0 ! idx)) @ ''~~~''
                @ sub_non_alnum (cell_text (csv_table ! 0 ! idx)) @ ''~~~''
                @ sub_spaces (cell_text (csv_table ! 1 ! idx)) @ ''~~~''
                @ sub_spaces (cell_text (csv_table ! 2 ! idx))"
    by (simp add: column_line_def clc_string_def column_tag_def column_desc_def
        column_units_def)
  from created count [unfolded w] line [unfolded l] show ?thesis by blast
qed

lemma example_columns_ok: "\<forall>i \<in> {1 ..< length (example_table ! 0)}. column_ok example_table i"
proof
  fix i assume "i \<in> {1 ..< length (example_table ! 0)}"
  then have "i = 1 \<or> i = 2" by (auto simp: example_table_def)
  then show "column_ok example_table i"
    by (auto simp: column_ok_def example_table_def is_text_def)
qed

lemma example_steps_valid:
  "steps_valid example_table 1000000 \<lparr>wall = 63713433600000000, utcoffset = None\<rparr>"
proof -
  have "i < 3 \<Longrightarrow> i = 0 \<or> i = 1 \<or> i = 2" for i :: nat by arith
  then show ?thesis
    by (auto simp: steps_valid_def example_table_def valid_timedelta_def valid_datetime_def
        generated_def us_per_day_def max_ordinal_def)
qed

theorem oversize_tag_warning_witness:
  "load_table example_env ''plant.csv'' ''csv'' = Inr example_table
   \<and> (2::nat) < length (example_table ! 0)
   \<and> sub_non_alnum (cell_text (example_table ! 0 ! 2)) = ''ABCDEFGHIJKLM''
   \<and> 12 < length (sub_non_alnum (cell_text (example_table ! 0 ! 2)))
   \<and> (\<exists>doc errors.
        create_clc_table example_env ''plant.csv'' ''csv'' = Inr (doc, errors)
      \<and> count_list errors ''line10: ABCDEFGHIJKLM variable length too long'' = 1
      \<and> doc ! 9 = [VStr ''ABCDEFGHIJKLM~~~ABCDEFGHIJKLM~~~Desc B~~~F''])"
proof -
  have ne: "example_table \<noteq> []" by (simp add: example_table_def)
  have i: "(2::nat) < length (example_table ! 0)" by (simp add: example_table_def)
  have tag: "sub_non_alnum (cell_text (example_table ! 0 ! 2)) = ''ABCDEFGHIJKLM''" by code_simp
  have desc: "sub_spaces (cell_text (example_table ! 1 ! 2)) = ''Desc B''" by code_simp
  have units: "sub_spaces (cell_text (example_table ! 2 ! 2)) = ''F''" by code_simp
  have n: "str_nat (2 + 8) = ''10''" by code_simp
  have long: "12 < length (sub_non_alnum (cell_text (example_table ! 0 ! 2)))"
    unfolding tag by simp
  from oversize_tag_warning [OF example_load ne example_columns_ok example_period
      example_steps_valid _ i long]
  show ?thesis
    unfolding tag desc units n using example_load i by simp
qed

text \<open>
  C6. When the rows of the table all have the length of row 0, the document of a
  conversion has, between its first two separators, as many metadata lines as the table
  has columns less one, and each of its data lines is a timestamp followed by twice that
  many elements, a value and a quality for each.
\<close>

theorem metadata_and_sample_counts:
  assumes "create_clc_table ev file_name extension = Inr (doc, errors)"
    and "load_table ev file_name extension = Inr csv_table"
    and "\<forall>row \<in> set csv_table. length row = length (csv_table ! 0)"
  shows "\<exists>meta data.
      doc = take 7 doc @ [[VStr (replicate 50 (CHR ''=''))]] @ meta
            @ [[VStr (replicate 50 (CHR ''=''))]] @ data
            @ [[VStr (replicate 50 (CHR ''=''))]]
    \<and> int (length meta) = int (length (csv_table ! 0)) - 1
    \<and> length data = length csv_table - 3
    \<and> (\<forall>line \<in> set data. \<exists>stamp pairs. line = VStr stamp # pairs
          \<and> int (length pairs) = 2 * (int (length (csv_table ! 0)) - 1))"
proof -
  from assms(1) obtain t tags errs p t0 where
    load: "load_table ev file_name extension = Inr t" and
    tags: "clc_tags_descriptions t = Inr (tags, errs)" and
    det: "determine_period_t0 ev t extension = Inr (p, t0)" and
    doc: "doc = write_list
                 [VStr banner, VStr attribution,
                  VInt (int (length tags)), VInt (int (length tags)),
                  VStr (strftime (generated t0 p 0)), VInt (whole_seconds p),
                  VInt (int (length t - 3))]
                 tags (map (data_line t p t0) [0 ..< length t - 3])"
    unfolding create_clc_table_Inr_iff by blast
  from load assms(2) have t: "t = csv_table" by simp
  let ?n = "length (csv_table ! 0)"
  let ?meta = "map (\<lambda>s. [VStr s]) tags"
  let ?data = "map (data_line csv_table p t0) [0 ..< length csv_table - 3]"
  from det t have rows: "5 \<le> length csv_table" and r3: "csv_table ! 3 \<noteq> []"
    using determine_period_t0_rows by blast+
  from rows have "csv_table ! 3 \<in> set csv_table" by simp
  with assms(3) r3 have n: "1 \<le> ?n" by (cases "csv_table ! 3") force+
  from tags t have len: "length tags = ?n - 1"
    by (simp add: clc_tags_descriptions_Inr_iff)
  have shape: "doc = take 7 doc @ [[VStr (replicate 50 (CHR ''=''))]] @ ?meta
            @ [[VStr (replicate 50 (CHR ''=''))]] @ ?data
            @ [[VStr (replicate 50 (CHR ''=''))]]"
    unfolding doc t write_list_def separator_line_def by simp
  have meta: "int (length ?meta) = int ?n - 1"
    using len n by simp
  have lines: "\<exists>stamp pairs. line = VStr stamp # pairs \<and> int (length pairs) = 2 * (int ?n - 1)"
    if "line \<in> set ?data" for line
  proof -
    from that obtain i where i: "i < length csv_table - 3"
      and line: "line = data_line csv_table p t0 i" by auto
    from i have "csv_table ! (i + 3) \<in> set csv_table" by simp
    with assms(3) have "length (csv_table ! (i + 3)) = ?n" by blast
    then have "int (length (row_samples (csv_table ! (i + 3)))) = 2 * (int ?n - 1)"
      using n by (simp add: length_row_samples)
    with line show ?thesis by (simp add: data_line_def)
  qed
  show ?thesis
    using shape meta lines
    by (intro exI [of _ ?meta] exI [of _ ?data]) simp
qed

lemma example_create_named:
  "create_clc_table example_env ''plant.csv'' ''csv'' = Inr (example_document, example_errors)"
  by (simp add: example_create example_document_def example_errors_def)

theorem metadata_and_sample_counts_witness:
  "load_table example_env ''plant.csv'' ''csv'' = Inr example_table
   \<and> create_clc_table example_env ''plant.csv'' ''csv'' = Inr (example_document, example_errors)
   \<and> list_all (\<lambda>row. length row = length (example_table ! 0)) example_table
   \<and> length (example_table ! 0) = 3
   \<and> (\<exists>meta data.
      example_document = take 7 example_document @ [[VStr (replicate 50 (CHR ''=''))]] @ meta
            @ [[VStr (replicate 50 (CHR ''=''))]] @ data
            @ [[VStr (replicate 50 (CHR ''=''))]]
    \<and> int (length meta) = 2
    \<and> length data = 3
    \<and> list_all (\<lambda>line. \<exists>stamp pairs. line = VStr stamp # pairs \<and> int (length pairs) = 4) data)"
proof -
  have valid: "\<forall>row \<in> set example_table. length row = length (example_table ! 0)"
    by (simp add: example_table_def)
  have n: "length (example_table ! 0) = 3" "length example_table = 6"
    by (simp_all add: example_table_def)
  from metadata_and_sample_counts [OF example_create_named example_load valid]
  obtain meta data where
    a: "example_document = take 7 example_document @ [[VStr (replicate 50 (CHR ''=''))]] @ meta
            @ [[VStr (replicate 50 (CHR ''=''))]] @ data
            @ [[VStr (replicate 50 (CHR ''=''))]]" and
    b: "int (length meta) = int (length (example_table ! 0)) - 1" and
    c: "length data = length example_table - 3" and
    d: "\<forall>line \<in> set data. \<exists>stamp pairs. line = VStr stamp # pairs
          \<and> int (length pairs) = 2 * (int (length (example_table ! 0)) - 1)"
    by blast
  from b n have b': "int (length meta) = 2" by simp
  from c n have c': "length data = 3" by simp
  from d n have d': "list_all (\<lambda>line. \<exists>stamp pairs. line = VStr stamp # pairs
      \<and> int (length pairs) = 4) data"
    by (simp add: list_all_iff)
  from valid have v': "list_all (\<lambda>row. length row = length (example_table ! 0)) example_table"
    by (simp add: list_all_iff)
  show ?thesis
    using example_load example_create_named v' n(1) a b' c' d' by blast
qed

section \<open>Results on \<open>float\<close>\<close>









lemma special_word_nonempty: "special_word w \<Longrightarrow> w \<noteq> []"
  by (auto simp: special_word_def)




lemma format_cell_bad_iff:
  "format_cell c = Inr [VInt (- 9999), VStr ''B''] \<longleftrightarrow> (\<forall>v. py_float c \<noteq> Inr v)"
  by (cases "py_float c") (auto simp: format_cell_eq sample_def)














end
